theory Spec2Isabelle
  imports Complex_Main
begin

section \<open>Replaying a recorded lap: the nearest-sample lookup and the timer loop\<close>

text \<open>
  A shallow embedding of \<^verbatim>\<open>replay.py\<close>: the class \<^verbatim>\<open>Trajectory\<close> with its
  method \<^verbatim>\<open>closest_point_time\<close>, and the class \<^verbatim>\<open>ReplayNode\<close> with its
  constructor and its timer callback \<^verbatim>\<open>loop\<close>.

  Numbers. Python floats and numpy's float64 are idealised as \<^typ>\<open>real\<close>: rounding,
  infinities and NaN are outside the model. Integers (the rate, the clock's nanoseconds,
  indices) are \<^typ>\<open>int\<close> and \<^typ>\<open>nat\<close>. Two places where a float is not a real
  number are modelled as the interpreter has them: the conversion of an integer that is
  too large for a float, which raises, and the one rounded addition inside the remainder
  \<^verbatim>\<open>%\<close> (see \<open>float_rem\<close>), which decides whether the phase stays below the lap time.

  Cells. A cell of the time column is \<^typ>\<open>real option\<close>, where \<^term>\<open>None\<close> is
  Python's \<^verbatim>\<open>None\<close> (the source tests \<^verbatim>\<open>self._t[0] is None\<close>). The cells of the
  other columns are numbers. An argument of the constructor that is left at its default
  \<^verbatim>\<open>None\<close> is \<^term>\<open>None\<close> at the outer \<open>option\<close>.

  Errors. Every exception the modelled code can raise is a value of \<open>error\<close>; a
  fallible function returns \<open>error + 'a\<close>, with \<^term>\<open>Inl\<close> for the exception.
\<close>

subsection \<open>Exceptions\<close>

datatype error =
    TypeError
  | ValueError string
  | ZeroDivisionError
  | IndexError
  | OverflowError

subsection \<open>The Trajectory object\<close>

text \<open>
  The fields \<^verbatim>\<open>_x, _y, _t, _t2, _v, _lap_time\<close> of the class. \<^verbatim>\<open>numpy.asarray(None)\<close> is
  a zero-dimensional array, written \<^term>\<open>None\<close> here; \<^verbatim>\<open>numpy.asarray\<close> of a list is
  the one-dimensional array of its elements.
\<close>

record trajectory =
  self_x :: "real list option"
  self_y :: "real list option"
  self_t :: "real option list"
  self_t2 :: "real option list"
  self_v :: "real list option"
  self_lap_time :: "real option"

text \<open>
  \<^verbatim>\<open>Trajectory.__init__\<close>. The only statement that can raise is \<^verbatim>\<open>t + [lap_time]\<close>: with
  \<^verbatim>\<open>t\<close> left at \<^verbatim>\<open>None\<close> it is a TypeError; with a list it is list concatenation. The
  constructor checks nothing else.
\<close>

definition Trajectory_init ::
  "real list option \<Rightarrow> real list option \<Rightarrow> real option list option \<Rightarrow> real list option
    \<Rightarrow> real option \<Rightarrow> error + trajectory" where
  "Trajectory_init x y t v lap_time =
     (case t of
        None \<Rightarrow> Inl TypeError
      | Some ts \<Rightarrow>
          Inr \<lparr>self_x = x, self_y = y, self_t = ts, self_t2 = ts @ [lap_time],
               self_v = v, self_lap_time = lap_time\<rparr>)"

text \<open>The property \<^verbatim>\<open>size\<close>: \<^verbatim>\<open>len(self._x)\<close>; \<^verbatim>\<open>len\<close> of a zero-dimensional array raises.\<close>

definition size_of :: "trajectory \<Rightarrow> error + nat" where
  "size_of tr = (case self_x tr of None \<Rightarrow> Inl TypeError | Some xs \<Rightarrow> Inr (length xs))"

subsection \<open>The arithmetic of the lookup\<close>

text \<open>
  Python's \<^verbatim>\<open>%\<close> on floats, over the reals: a zero divisor raises, otherwise the result is
  the floored remainder \<open>x - y * floor (x / y)\<close>, which has the sign of the divisor.
\<close>

definition floor_mod :: "real \<Rightarrow> real \<Rightarrow> real" where
  "floor_mod x y = x - y * of_int \<lfloor>x / y\<rfloor>"

definition py_mod :: "real \<Rightarrow> real \<Rightarrow> error + real" where
  "py_mod x y = (if y = 0 then Inl ZeroDivisionError else Inr (floor_mod x y))"

text \<open>
  The same operator as the interpreter computes it on binary64 floats (\<^verbatim>\<open>float_rem\<close> in
  CPython): the C function \<^verbatim>\<open>fmod\<close>, whose result is exact and has the sign of the
  dividend, and, when that result is not zero and its sign differs from the divisor's, the
  addition \<^verbatim>\<open>mod += wx\<close>, which is rounded. \<open>round_double\<close> is rounding to the nearest
  binary64 number, ties to the even significand: 53 bits, the smallest binade \<open>-1022\<close>
  (below it the numbers are subnormal and the spacing stays \<open>2 powi (-1074)\<close>). Overflow is
  not modelled: the sum rounded here is smaller in magnitude than the divisor.
\<close>

definition c_trunc :: "real \<Rightarrow> int" where
  "c_trunc r = (if 0 \<le> r then \<lfloor>r\<rfloor> else \<lceil>r\<rceil>)"

definition fmod :: "real \<Rightarrow> real \<Rightarrow> real" where
  "fmod x y = x - y * of_int (c_trunc (x / y))"

definition round_half_even :: "real \<Rightarrow> int" where
  "round_half_even r =
     (let f = \<lfloor>r\<rfloor>
      in if r - of_int f < 1 / 2 then f
         else if 1 / 2 < r - of_int f then f + 1
         else if even f then f else f + 1)"

definition binade :: "real \<Rightarrow> int" where
  "binade x = max \<lfloor>log 2 \<bar>x\<bar>\<rfloor> (- 1022)"

definition ulp :: "real \<Rightarrow> real" where
  "ulp x = 2 powi (binade x - 52)"

definition round_double :: "real \<Rightarrow> real" where
  "round_double x = (if x = 0 then 0 else of_int (round_half_even (x / ulp x)) * ulp x)"

definition float_rem :: "real \<Rightarrow> real \<Rightarrow> error + real" where
  "float_rem vx wx =
     (if wx = 0 then Inl ZeroDivisionError
      else
        (let m = fmod vx wx
         in if m \<noteq> 0 then (if (wx < 0) \<noteq> (m < 0) then Inr (round_double (m + wx)) else Inr m)
            else Inr 0))"

text \<open>
  \<^verbatim>\<open>self._t2 - phase\<close>: elementwise. An array that holds a \<^verbatim>\<open>None\<close> is an object array,
  and \<^verbatim>\<open>None - float\<close> raises TypeError.
\<close>

fun np_sub :: "real option list \<Rightarrow> real \<Rightarrow> error + real list" where
  "np_sub [] p = Inr []"
| "np_sub (None # ws) p = Inl TypeError"
| "np_sub (Some w # ws) p =
     (case np_sub ws p of Inl e \<Rightarrow> Inl e | Inr ds \<Rightarrow> Inr ((w - p) # ds))"

definition np_power :: "real list \<Rightarrow> nat \<Rightarrow> real list" where
  "np_power ds n = map (\<lambda>d. d ^ n) ds"

definition np_sqrt :: "real list \<Rightarrow> real list" where
  "np_sqrt ds = map sqrt ds"

text \<open>
  \<^verbatim>\<open>numpy.argmin\<close>: the index of the first occurrence of the minimum, found by one scan
  that replaces the best entry only by a strictly smaller one; an empty array raises
  ValueError.
\<close>

fun argmin_scan :: "real \<Rightarrow> nat \<Rightarrow> nat \<Rightarrow> real list \<Rightarrow> nat" where
  "argmin_scan best bi i [] = bi"
| "argmin_scan best bi i (d # ds) =
     (if d < best then argmin_scan d i (Suc i) ds else argmin_scan best bi (Suc i) ds)"

definition np_argmin :: "real list \<Rightarrow> error + nat" where
  "np_argmin ds =
     (case ds of
        [] \<Rightarrow> Inl (ValueError ''attempt to get argmin of an empty sequence'')
      | d # rest \<Rightarrow> Inr (argmin_scan d 0 1 rest))"

text \<open>
  \<^verbatim>\<open>%\<close> on a numpy integer: a zero divisor gives 0 (with a warning, no exception).
\<close>

definition np_int_mod :: "nat \<Rightarrow> nat \<Rightarrow> nat" where
  "np_int_mod k n = (if n = 0 then 0 else k mod n)"

text \<open>Indexing a one-dimensional array at a non-negative index.\<close>

definition np_getitem :: "'a list \<Rightarrow> nat \<Rightarrow> error + 'a" where
  "np_getitem xs i = (if i < length xs then Inr (xs ! i) else Inl IndexError)"

subsection \<open>\<^verbatim>\<open>Trajectory.closest_point_time\<close>\<close>

definition lacks_timestamps :: error where
  "lacks_timestamps =
     ValueError ''Unable to find time-closest point as trajectory lacks timestamps.''"

text \<open>
  The array of distances: \<^verbatim>\<open>numpy.sqrt(numpy.power(self._t2 - (time % self._lap_time), 2))\<close>.
  The right operand of the subtraction is evaluated before the subtraction, so a missing
  or zero lap time raises before a missing timestamp does.
\<close>

definition distances :: "trajectory \<Rightarrow> real \<Rightarrow> error + real list" where
  "distances tr time =
     (case self_lap_time tr of
        None \<Rightarrow> Inl TypeError
      | Some lap \<Rightarrow>
          (case py_mod time lap of
             Inl e \<Rightarrow> Inl e
           | Inr phase \<Rightarrow>
               (case np_sub (self_t2 tr) phase of
                  Inl e \<Rightarrow> Inl e
                | Inr ds \<Rightarrow> Inr (np_sqrt (np_power ds 2)))))"

definition closest_point_time :: "trajectory \<Rightarrow> real \<Rightarrow> error + (real \<times> nat)" where
  "closest_point_time tr time =
     (case self_t tr of
        [] \<Rightarrow> Inl IndexError
      | t0 # _ \<Rightarrow>
          if t0 = None then Inl lacks_timestamps
          else
            (case distances tr time of
               Inl e \<Rightarrow> Inl e
             | Inr ds \<Rightarrow>
                 (case np_argmin ds of
                    Inl e \<Rightarrow> Inl e
                  | Inr k \<Rightarrow>
                      (case size_of tr of
                         Inl e \<Rightarrow> Inl e
                       | Inr n \<Rightarrow>
                           (let min_i = np_int_mod k n
                            in case np_getitem ds min_i of
                                 Inl e \<Rightarrow> Inl e
                               | Inr d \<Rightarrow> Inr (d, min_i))))))"



subsection \<open>The ReplayNode\<close>

text \<open>
  The message handed to the publisher: of \<^verbatim>\<open>nav_msgs/Odometry\<close> the callback sets the
  frame id, the stamp and the two position coordinates. The stamp is the clock reading,
  in nanoseconds.
\<close>

record odometry =
  header_frame_id :: string
  header_stamp :: int
  position_x :: real
  position_y :: real

text \<open>
  The fields \<^verbatim>\<open>_trajectory, _frame_id, _pub, _loop\<close>. The publisher is the list of the
  messages published so far, oldest first; the timer is whatever the framework's
  \<^verbatim>\<open>create_timer\<close> returns.
\<close>

record 'tm replay_node =
  self_trajectory :: trajectory
  self_frame_id :: string
  self_pub :: "odometry list"
  self_loop :: 'tm

text \<open>
  Converting a Python integer to a float, as \<^verbatim>\<open>1. / rate\<close> does with its right operand:
  an integer that rounds beyond the largest float, that is one of magnitude
  \<open>2 ^ 1024 - 2 ^ 970\<close> or more, raises OverflowError.
\<close>

definition int_to_float :: "int \<Rightarrow> error + real" where
  "int_to_float n =
     (if 2 ^ 1024 - 2 ^ 970 \<le> \<bar>n\<bar> then Inl OverflowError else Inr (real_of_int n))"

text \<open>
  \<^verbatim>\<open>ReplayNode.__init__\<close>. The rate is an integer (\<^verbatim>\<open>type = int\<close> on the command line);
  \<^verbatim>\<open>1. / rate\<close> raises OverflowError for a rate too large for a float and
  ZeroDivisionError for a zero rate. The framework's \<^verbatim>\<open>create_timer\<close> is not part of the
  repository: it is the parameter \<open>create_timer\<close>, which receives the period and may fail.
  The node's own constructor and the publisher's creation are framework calls as well and
  are taken to succeed.
\<close>

definition ReplayNode_init ::
  "(real \<Rightarrow> error + 'tm) \<Rightarrow> trajectory \<Rightarrow> int \<Rightarrow> string \<Rightarrow> error + 'tm replay_node" where
  "ReplayNode_init create_timer trajectory rate frame_id =
     (case int_to_float rate of
        Inl e \<Rightarrow> Inl e
      | Inr r \<Rightarrow>
          if r = 0 then Inl ZeroDivisionError
          else
            (case create_timer (1 / r) of
               Inl e \<Rightarrow> Inl e
             | Inr tm \<Rightarrow>
                 Inr \<lparr>self_trajectory = trajectory, self_frame_id = frame_id,
                      self_pub = [], self_loop = tm\<rparr>))"

text \<open>Indexing a stored column: a zero-dimensional array cannot be indexed.\<close>

definition column_getitem :: "real list option \<Rightarrow> nat \<Rightarrow> error + real" where
  "column_getitem col i = (case col of None \<Rightarrow> Inl IndexError | Some xs \<Rightarrow> np_getitem xs i)"

text \<open>
  \<^verbatim>\<open>ReplayNode.loop\<close>, one firing of the timer. \<open>now\<close> is the value of \<^verbatim>\<open>self.Time.now()\<close>
  in nanoseconds, read once; the lookup receives \<^verbatim>\<open>cur_time.nanoseconds / 1.e9\<close>.
  Publishing appends the message to the publisher's list.
\<close>

definition loop :: "'tm replay_node \<Rightarrow> int \<Rightarrow> error + 'tm replay_node" where
  "loop node now =
     (case closest_point_time (self_trajectory node) (real_of_int now / 1000000000) of
        Inl e \<Rightarrow> Inl e
      | Inr (_, index) \<Rightarrow>
          (case column_getitem (self_x (self_trajectory node)) index of
             Inl e \<Rightarrow> Inl e
           | Inr px \<Rightarrow>
               (case column_getitem (self_y (self_trajectory node)) index of
                  Inl e \<Rightarrow> Inl e
                | Inr py \<Rightarrow>
                    Inr (node\<lparr>self_pub := self_pub node @
                          [\<lparr>header_frame_id = self_frame_id node, header_stamp = now,
                            position_x = px, position_y = py\<rparr>]\<rparr>))))"

subsection \<open>The invariants of a trajectory\<close>

text \<open>
  The source validates nothing, so the invariants of the data model are a predicate on
  the stored object, used as the hypothesis "a valid trajectory": all columns are
  present, at least one sample, the three other columns as long as the time column,
  a positive lap time, every timestamp a number, timestamps in non-decreasing order and
  starting at 0; \<^verbatim>\<open>_t2\<close> is what the constructor stored.
\<close>

definition valid_trajectory :: "trajectory \<Rightarrow> bool" where
  "valid_trajectory tr \<longleftrightarrow>
     (case (self_x tr, self_y tr, self_v tr, self_lap_time tr) of
        (Some xs, Some ys, Some vs, Some lap) \<Rightarrow>
          self_t tr \<noteq> [] \<and>
          length xs = length (self_t tr) \<and>
          length ys = length (self_t tr) \<and>
          length vs = length (self_t tr) \<and>
          0 < lap \<and>
          list_all (\<lambda>c. c \<noteq> None) (self_t tr) \<and>
          sorted (map the (self_t tr)) \<and>
          hd (self_t tr) = Some 0 \<and>
          self_t2 tr = self_t tr @ [Some lap]
      | _ \<Rightarrow> False)"

text \<open>
  What \<^verbatim>\<open>numpy.argmin\<close> promises, as a predicate: \<open>k\<close> is an index of \<open>ds\<close>, no entry
  is smaller than the one at \<open>k\<close>, and every entry before \<open>k\<close> is strictly larger.
\<close>

definition first_min :: "real list \<Rightarrow> nat \<Rightarrow> bool" where
  "first_min ds k \<longleftrightarrow>
     k < length ds \<and> (\<forall>j<length ds. ds ! k \<le> ds ! j) \<and> (\<forall>j<k. ds ! k < ds ! j)"

text \<open>The scenario of the specification: three samples one second apart, a lap of 3 s.\<close>

definition lap3 :: trajectory where
  "lap3 =
     \<lparr>self_x = Some [0, 1, 2], self_y = Some [0, 0, 0],
      self_t = [Some 0, Some 1, Some 2], self_t2 = [Some 0, Some 1, Some 2, Some 3],
      self_v = Some [1, 1, 1], self_lap_time = Some 3\<rparr>"

definition lap3_node :: "unit replay_node" where
  "lap3_node =
     \<lparr>self_trajectory = lap3, self_frame_id = ''map'', self_pub = [], self_loop = ()\<rparr>"

text \<open>
  Further inputs used below: a time column with a missing entry after the first one; a
  lap whose last timestamp is the lap time itself; columns
  that break every invariant but the non-emptiness; empty columns with a zero lap time;
  and a \<^verbatim>\<open>create_timer\<close> that accepts every period and returns it as the timer.
\<close>

definition gap3 :: trajectory where
  "gap3 =
     \<lparr>self_x = Some [0, 1, 2], self_y = Some [0, 0, 0],
      self_t = [Some 0, None, Some 2], self_t2 = [Some 0, None, Some 2, Some 3],
      self_v = Some [1, 1, 1], self_lap_time = Some 3\<rparr>"


definition disordered :: trajectory where
  "disordered =
     \<lparr>self_x = Some [1], self_y = Some [], self_t = [Some 5, Some 2],
      self_t2 = [Some 5, Some 2, Some (- 1)], self_v = Some [], self_lap_time = Some (- 1)\<rparr>"

definition no_samples :: trajectory where
  "no_samples =
     \<lparr>self_x = Some [], self_y = Some [], self_t = [], self_t2 = [Some 0],
      self_v = Some [], self_lap_time = Some 0\<rparr>"

definition accepting_timer :: "real \<Rightarrow> error + real" where
  "accepting_timer period = Inr period"

section \<open>Properties\<close>

subsection \<open>The array operations\<close>

lemma np_sub_Some: "np_sub (map Some ws) p = Inr (map (\<lambda>w. w - p) ws)"
  by (induction ws) auto

lemma sqrt_power_abs: "np_sqrt (np_power ds 2) = map abs ds"
  by (simp add: np_sqrt_def np_power_def)

text \<open>
  The square root of a square is the absolute value, which makes the distances computable.
\<close>

lemma distances_code [code]:
  "distances tr time =
     (case self_lap_time tr of
        None \<Rightarrow> Inl TypeError
      | Some lap \<Rightarrow>
          (case py_mod time lap of
             Inl e \<Rightarrow> Inl e
           | Inr phase \<Rightarrow>
               (case np_sub (self_t2 tr) phase of
                  Inl e \<Rightarrow> Inl e
                | Inr ds \<Rightarrow> Inr (map abs ds))))"
  by (simp add: distances_def sqrt_power_abs cong: option.case_cong sum.case_cong)

lemma first_min_snoc_less:
  assumes "first_min pre bi" and "d < pre ! bi"
  shows "first_min (pre @ [d]) (length pre)"
  unfolding first_min_def
proof (intro conjI allI impI)
  show "length pre < length (pre @ [d])" by simp
next
  fix j assume "j < length (pre @ [d])"
  then have "j < length pre \<or> j = length pre" by auto
  then show "(pre @ [d]) ! length pre \<le> (pre @ [d]) ! j"
  proof
    assume j: "j < length pre"
    with assms have "pre ! bi \<le> pre ! j" by (simp add: first_min_def)
    with assms(2) j show ?thesis by (simp add: nth_append)
  next
    assume "j = length pre"
    then show ?thesis by simp
  qed
next
  fix j assume j: "j < length pre"
  with assms have "pre ! bi \<le> pre ! j" by (simp add: first_min_def)
  with assms(2) j show "(pre @ [d]) ! length pre < (pre @ [d]) ! j"
    by (simp add: nth_append)
qed

lemma first_min_snoc_keep:
  assumes "first_min pre bi" and "\<not> d < pre ! bi"
  shows "first_min (pre @ [d]) bi"
  unfolding first_min_def
proof (intro conjI allI impI)
  from assms show "bi < length (pre @ [d])" by (simp add: first_min_def)
next
  fix j assume "j < length (pre @ [d])"
  then have "j < length pre \<or> j = length pre" by auto
  then show "(pre @ [d]) ! bi \<le> (pre @ [d]) ! j"
  proof
    assume j: "j < length pre"
    with assms show ?thesis by (simp add: first_min_def nth_append)
  next
    assume "j = length pre"
    with assms show ?thesis by (simp add: first_min_def nth_append)
  qed
next
  fix j assume "j < bi"
  with assms show "(pre @ [d]) ! bi < (pre @ [d]) ! j"
    by (simp add: first_min_def nth_append)
qed

lemma argmin_scan_first_min:
  "first_min pre bi \<Longrightarrow>
   first_min (pre @ ds) (argmin_scan (pre ! bi) bi (length pre) ds)"
proof (induction ds arbitrary: pre bi)
  case Nil
  then show ?case by simp
next
  case (Cons d ds)
  show ?case
  proof (cases "d < pre ! bi")
    case True
    with Cons.prems have "first_min (pre @ [d]) (length pre)"
      by (rule first_min_snoc_less)
    from Cons.IH [OF this] True show ?thesis by simp
  next
    case False
    with Cons.prems have fm: "first_min (pre @ [d]) bi"
      by (rule first_min_snoc_keep)
    from Cons.prems have "bi < length pre" by (simp add: first_min_def)
    with Cons.IH [OF fm] False show ?thesis by (simp add: nth_append)
  qed
qed

lemma np_argmin_first_min:
  assumes "ds \<noteq> []"
  shows "\<exists>k. np_argmin ds = Inr k \<and> first_min ds k"
proof -
  from assms obtain d rest where ds: "ds = d # rest" by (cases ds) auto
  have "first_min [d] 0" by (simp add: first_min_def)
  from argmin_scan_first_min [OF this, of rest]
  have "first_min (d # rest) (argmin_scan d 0 1 rest)" by simp
  with ds show ?thesis by (simp add: np_argmin_def)
qed

lemma valid_trajectoryD:
  assumes "valid_trajectory tr"
  obtains xs ys vs ts lap where
    "self_x tr = Some xs" "self_y tr = Some ys" "self_v tr = Some vs"
    "self_lap_time tr = Some lap" "self_t tr = map Some ts" "self_t2 tr = map Some (ts @ [lap])"
    "ts \<noteq> []" "length xs = length ts" "length ys = length ts" "length vs = length ts"
    "0 < lap" "sorted ts" "hd ts = 0"
proof -
  from assms obtain xs ys vs lap where
    f: "self_x tr = Some xs" "self_y tr = Some ys" "self_v tr = Some vs"
       "self_lap_time tr = Some lap"
    and r: "self_t tr \<noteq> []" "length xs = length (self_t tr)" "length ys = length (self_t tr)"
       "length vs = length (self_t tr)" "0 < lap" "list_all (\<lambda>c. c \<noteq> None) (self_t tr)"
       "sorted (map the (self_t tr))" "hd (self_t tr) = Some 0"
       "self_t2 tr = self_t tr @ [Some lap]"
    by (auto simp: valid_trajectory_def split: option.splits)
  define ts where "ts = map the (self_t tr)"
  from r(6) have t: "self_t tr = map Some ts"
    unfolding ts_def by (induction "self_t tr") (auto simp: list_all_iff intro: nth_equalityI)
  show ?thesis
  proof (rule that [OF f t])
    show "self_t2 tr = map Some (ts @ [lap])" using r(9) t by simp
    show "ts \<noteq> []" using r(1) t by auto
    show "length xs = length ts" "length ys = length ts" "length vs = length ts"
      using r(2,3,4) by (simp_all add: ts_def)
    show "0 < lap" by fact
    show "sorted ts" using r(7) by (simp add: ts_def)
    show "hd ts = 0" using r(8) r(1) t by (cases ts) auto
  qed
qed

lemma closest_point_time_valid:
  fixes q :: real and lap :: real and ts :: "real list"
  assumes "self_x tr = Some xs" "self_lap_time tr = Some lap" "self_t tr = map Some ts"
    "self_t2 tr = map Some (ts @ [lap])" "ts \<noteq> []" "length xs = length ts" "lap \<noteq> 0"
  defines "ds \<equiv> map (\<lambda>w. \<bar>w - floor_mod q lap\<bar>) (ts @ [lap])"
  shows "\<exists>k. first_min ds k \<and>
           closest_point_time tr q = Inr (ds ! (k mod length ts), k mod length ts)"
proof -
  have dist: "distances tr q = Inr ds"
    using assms(2,4,7)
    by (simp add: distances_def py_mod_def np_sub_Some sqrt_power_abs ds_def floor_mod_def
        comp_def del: map_append)
  have "ds \<noteq> []" by (simp add: ds_def)
  from np_argmin_first_min [OF this]
  obtain k where k: "np_argmin ds = Inr k" "first_min ds k" by blast
  have len: "length ds = Suc (length ts)" by (simp add: ds_def)
  from assms(5) have "k mod length ts < length ts" by simp
  then have get: "np_getitem ds (k mod length ts) = Inr (ds ! (k mod length ts))"
    using len by (simp add: np_getitem_def)
  from assms(5) obtain t0 rest where ts: "ts = t0 # rest" by (cases ts) auto
  have "closest_point_time tr q = Inr (ds ! (k mod length ts), k mod length ts)"
    using dist k(1) get assms(1,3,5,6)
    by (simp add: closest_point_time_def size_of_def np_int_mod_def ts Let_def)
  with k(2) show ?thesis by blast
qed

subsection \<open>The scenario, evaluated\<close>

lemma valid_lap3: "valid_trajectory lap3"
  by (simp add: valid_trajectory_def lap3_def)

lemma lap3_fields:
  "self_x lap3 = Some [0, 1, 2]" "self_y lap3 = Some [0, 0, 0]"
  "self_t lap3 = [Some 0, Some 1, Some 2]" "self_t2 lap3 = [Some 0, Some 1, Some 2, Some 3]"
  "self_v lap3 = Some [1, 1, 1]" "self_lap_time lap3 = Some 3"
  by (simp_all add: lap3_def)

lemma distances_lap3:
  "distances lap3 (29 / 10) = Inr [29 / 10, 19 / 10, 9 / 10, 1 / 10]"
  by (simp add: distances_def lap3_fields py_mod_def floor_mod_def sqrt_power_abs)

subsection \<open>The floored remainder\<close>

lemma floor_mod_add_period:
  assumes "lap \<noteq> 0"
  shows "floor_mod (t + lap) lap = floor_mod t lap"
proof -
  from assms have "(t + lap) / lap = t / lap + 1" by (simp add: add_divide_distrib)
  then have "\<lfloor>(t + lap) / lap\<rfloor> = \<lfloor>t / lap\<rfloor> + 1" by simp
  then show ?thesis by (simp add: floor_mod_def algebra_simps)
qed

lemma py_mod_add_period: "py_mod (t + lap) lap = py_mod t lap"
  by (simp add: py_mod_def floor_mod_add_period)


subsection \<open>Sorted timestamps\<close>


subsection \<open>Rounding to the nearest float\<close>



















subsection \<open>The remainder of the interpreter\<close>






lemma floor_mod_fmod:
  assumes "y \<noteq> 0"
  shows "floor_mod x y =
           (if fmod x y \<noteq> 0 \<and> (y < 0) \<noteq> (fmod x y < 0) then fmod x y + y else fmod x y)"
proof (cases "0 \<le> x / y")
  case True
  then have eq: "fmod x y = floor_mod x y" by (simp add: fmod_def c_trunc_def floor_mod_def)
  define f where "f = x / y - of_int \<lfloor>x / y\<rfloor>"
  have f: "0 \<le> f" "f < 1" unfolding f_def by linarith+
  have "floor_mod x y = y * f" using assms by (simp add: floor_mod_def f_def algebra_simps)
  with f have "(y < 0) = (floor_mod x y < 0) \<or> floor_mod x y = 0"
    by (auto simp: mult_less_0_iff zero_less_mult_iff not_less mult_le_0_iff)
  with eq show ?thesis by auto
next
  case False
  then have neg: "x / y < 0" by simp
  show ?thesis
  proof (cases "x / y = of_int \<lfloor>x / y\<rfloor>")
    case True
    then have "\<lceil>x / y\<rceil> = \<lfloor>x / y\<rfloor>" by (metis ceiling_of_int)
    with neg True assms have "fmod x y = 0" "floor_mod x y = 0"
      by (simp_all add: fmod_def c_trunc_def floor_mod_def)
    then show ?thesis by simp
  next
    case False
    then have c: "\<lceil>x / y\<rceil> = \<lfloor>x / y\<rfloor> + 1" by (simp add: ceiling_altdef)
    define g where "g = x / y - of_int \<lceil>x / y\<rceil>"
    from False c have g: "- 1 < g" "g < 0" unfolding g_def by linarith+
    have m: "fmod x y = y * g" using neg assms by (simp add: fmod_def c_trunc_def g_def algebra_simps)
    have fm: "floor_mod x y = fmod x y + y"
      using neg c by (simp add: fmod_def c_trunc_def floor_mod_def algebra_simps)
    from m g assms have "fmod x y \<noteq> 0" by simp
    moreover from m g assms have "(y < 0) \<noteq> (fmod x y < 0)"
      by (auto simp: mult_less_0_iff)
    ultimately show ?thesis using fm by simp
  qed
qed

lemma float_rem_exact:
  assumes "round_double (fmod x y + y) = fmod x y + y"
  shows "float_rem x y = py_mod x y"
proof (cases "y = 0")
  case True
  then show ?thesis by (simp add: float_rem_def py_mod_def)
next
  case False
  with floor_mod_fmod [OF False, of x] assms show ?thesis
    by (auto simp: float_rem_def py_mod_def Let_def)
qed

subsection \<open>The result on a valid trajectory\<close>

lemma closest_point_time_index:
  assumes "valid_trajectory tr"
  shows "\<exists>d i. closest_point_time tr q = Inr (d, i) \<and> i < length (self_t tr)"
proof -
  from assms obtain xs ys vs :: "real list" and ts lap where
    v: "self_x tr = Some xs" "self_lap_time tr = Some lap" "self_t tr = map Some ts"
       "self_t2 tr = map Some (ts @ [lap])" "ts \<noteq> []" "length xs = length ts" "0 < lap"
    by (rule valid_trajectoryD)
  from v(7) have "lap \<noteq> 0" by simp
  from closest_point_time_valid [OF v(1-6) this, of q] v(3,5) show ?thesis by auto
qed


subsection \<open>Which exceptions the lookup can raise\<close>

lemma np_sub_error: "np_sub ws p = Inl e \<Longrightarrow> e = TypeError"
proof (induction ws)
  case Nil
  then show ?case by simp
next
  case (Cons c ws)
  then show ?case by (cases c) (auto split: sum.splits)
qed

lemma distances_error: "distances tr q = Inl e \<Longrightarrow> e = TypeError \<or> e = ZeroDivisionError"
  by (auto simp: distances_def py_mod_def split: option.splits sum.splits if_splits
      dest: np_sub_error)

lemma closest_point_time_error:
  assumes "closest_point_time tr q = Inl e"
  shows "e = IndexError \<or> e = TypeError \<or> e = ZeroDivisionError \<or>
         e = ValueError ''attempt to get argmin of an empty sequence'' \<or>
         (e = lacks_timestamps \<and> (\<exists>rest. self_t tr = None # rest))"
proof (cases "self_t tr")
  case Nil
  with assms show ?thesis by (simp add: closest_point_time_def)
next
  case (Cons t0 rest)
  show ?thesis
  proof (cases t0)
    case None
    with Cons assms show ?thesis by (simp add: closest_point_time_def)
  next
    case (Some r)
    with Cons assms show ?thesis
      by (auto simp: closest_point_time_def np_argmin_def size_of_def np_getitem_def Let_def
          split: sum.splits list.splits option.splits if_splits dest: distances_error)
  qed
qed

subsection \<open>More evaluations\<close>

lemma init_lap3:
  "Trajectory_init (Some [0, 1, 2]) (Some [0, 0, 0]) (Some [Some 0, Some 1, Some 2])
     (Some [1, 1, 1]) (Some 3) = Inr lap3"
  by (simp add: Trajectory_init_def lap3_def)

lemma closest_lap3_half: "closest_point_time lap3 (1 / 2) = Inr (1 / 2, 0)"
proof -
  have d: "distances lap3 (1 / 2) = Inr [1 / 2, 1 / 2, 3 / 2, 5 / 2]"
    by (simp add: distances_def lap3_fields py_mod_def floor_mod_def sqrt_power_abs)
  show ?thesis
    by (simp add: closest_point_time_def d np_argmin_def lap3_fields size_of_def
        np_int_mod_def np_getitem_def)
qed

lemma closest_lap3_1: "closest_point_time lap3 1 = Inr (0, 1)"
proof -
  have d: "distances lap3 1 = Inr [1, 0, 1, 2]"
    by (simp add: distances_def lap3_fields py_mod_def floor_mod_def sqrt_power_abs)
  show ?thesis
    by (simp add: closest_point_time_def d np_argmin_def lap3_fields size_of_def
        np_int_mod_def np_getitem_def)
qed

lemma closest_lap3_2: "closest_point_time lap3 2 = Inr (0, 2)"
proof -
  have d: "distances lap3 2 = Inr [2, 1, 0, 1]"
    by (simp add: distances_def lap3_fields py_mod_def floor_mod_def sqrt_power_abs)
  show ?thesis
    by (simp add: closest_point_time_def d np_argmin_def lap3_fields size_of_def
        np_int_mod_def np_getitem_def)
qed

lemma closest_gap3: "closest_point_time gap3 q = Inl TypeError"
  by (simp add: closest_point_time_def gap3_def distances_def py_mod_def)





section \<open>The claims\<close>

text \<open>
  C1. The specification says that the lookup returns the minimal distance together with
  the aliased index, so that for times \<open>[0, 1, 2]\<close>, a lap of 3 and the query 2.9 the result
  is index 0 with delta 0.1. The source takes the remainder of the argmin first and then
  reads the distance at the aliased index: the distances are \<open>[2.9, 1.9, 0.9, 0.1]\<close>, the
  argmin is the sentinel index 3, the index returned is 0, and the distance returned is the
  entry at 0, which is 2.9 and not the minimum 0.1.
\<close>

theorem closest_point_time_sentinel_delta:
  "distances lap3 (29 / 10) = Inr [29 / 10, 19 / 10, 9 / 10, 1 / 10] \<and>
   np_argmin [29 / 10, 19 / 10, 9 / 10, 1 / 10] = Inr 3 \<and>
   closest_point_time lap3 (29 / 10) = Inr (29 / 10, 0) \<and>
   closest_point_time lap3 (29 / 10) \<noteq> Inr (1 / 10, 0)"
proof (intro conjI)
  show "distances lap3 (29 / 10) = Inr [29 / 10, 19 / 10, 9 / 10, 1 / 10]"
    by (rule distances_lap3)
  show "np_argmin [29 / 10, 19 / 10, 9 / 10, 1 / 10] = Inr 3"
    by (simp add: np_argmin_def)
  show "closest_point_time lap3 (29 / 10) = Inr (29 / 10, 0)"
    by (simp add: closest_point_time_def distances_lap3 np_argmin_def lap3_fields size_of_def
        np_int_mod_def np_getitem_def)
  then show "closest_point_time lap3 (29 / 10) \<noteq> Inr (1 / 10, 0)"
    by simp
qed

text \<open>
  C5. On a valid trajectory with \<open>N\<close> samples the lookup returns, for every query time, an
  index below \<open>N\<close> and a non-negative time delta.
\<close>

theorem closest_point_time_range:
  assumes "valid_trajectory tr"
  shows "\<exists>d i n. closest_point_time tr q = Inr (d, i) \<and> size_of tr = Inr n \<and>
           n = length (self_t tr) \<and> i < n \<and> 0 \<le> d"
proof -
  from assms obtain xs ys vs :: "real list" and ts lap where
    v: "self_x tr = Some xs" "self_lap_time tr = Some lap" "self_t tr = map Some ts"
       "self_t2 tr = map Some (ts @ [lap])" "ts \<noteq> []" "length xs = length ts" "0 < lap"
    by (rule valid_trajectoryD)
  from v(7) have "lap \<noteq> 0" by simp
  from closest_point_time_valid [OF v(1-6) this, of q]
  obtain k where
    c: "closest_point_time tr q =
          Inr (map (\<lambda>w. \<bar>w - floor_mod q lap\<bar>) (ts @ [lap]) ! (k mod length ts), k mod length ts)"
    by blast
  have i: "k mod length ts < length ts" using v(5) by simp
  then have "k mod length ts < length (ts @ [lap])" by simp
  then have "0 \<le> map (\<lambda>w. \<bar>w - floor_mod q lap\<bar>) (ts @ [lap]) ! (k mod length ts)"
    by (simp only: nth_map abs_ge_zero)
  with c i v(1,3,6) show ?thesis by (simp add: size_of_def)
qed

text \<open>The same at the scenario, queried at \<open>-5\<close>.\<close>

theorem closest_point_time_range_witness:
  "valid_trajectory lap3 \<and>
   (\<exists>d i n. closest_point_time lap3 (- 5) = Inr (d, i) \<and> size_of lap3 = Inr n \<and>
       n = length (self_t lap3) \<and> i < n \<and> 0 \<le> d)"
  using closest_point_time_range [OF valid_lap3, of "- 5"] valid_lap3 by simp

text \<open>
  C6. Periodicity: the lookup at \<open>t\<close> plus the lap time returns what it returns at \<open>t\<close>,
  delta and index alike (and the same exception where it raises). It needs no more than
  a lap time that is a number, so it holds for every valid trajectory.
\<close>

theorem closest_point_time_periodic:
  assumes "self_lap_time tr = Some lap"
  shows "closest_point_time tr (t + lap) = closest_point_time tr t"
proof -
  from assms have "distances tr (t + lap) = distances tr t"
    by (simp add: distances_def py_mod_add_period)
  then show ?thesis by (simp add: closest_point_time_def split: list.split)
qed

text \<open>At the scenario: the queries 1.4 and 4.4 both give index 1 with delta 0.4.\<close>

theorem closest_point_time_periodic_witness:
  "valid_trajectory lap3 \<and> self_lap_time lap3 = Some 3 \<and>
   closest_point_time lap3 (7 / 5 + 3) = closest_point_time lap3 (7 / 5) \<and>
   closest_point_time lap3 (7 / 5) = Inr (2 / 5, 1)"
proof -
  have l: "self_lap_time lap3 = Some 3" by (simp add: lap3_def)
  have d: "distances lap3 (7 / 5) = Inr [7 / 5, 2 / 5, 3 / 5, 8 / 5]"
    by (simp add: distances_def lap3_fields py_mod_def floor_mod_def sqrt_power_abs)
  have "closest_point_time lap3 (7 / 5) = Inr (2 / 5, 1)"
    by (simp add: closest_point_time_def d np_argmin_def lap3_fields size_of_def
        np_int_mod_def np_getitem_def)
  with closest_point_time_periodic [OF l, of "7 / 5"] l valid_lap3 show ?thesis
    by simp
qed




text \<open>
  C8. Ties: on a valid trajectory the index returned is \<open>k mod N\<close> for the smallest index
  \<open>k\<close> in \<open>0..N\<close> whose wrapped time is at minimal distance from the phase: no entry is
  nearer than the entry at \<open>k\<close>, and every entry before \<open>k\<close> is strictly farther.
\<close>

theorem closest_point_time_first_minimum:
  assumes "valid_trajectory tr"
  shows "\<exists>lap phase k d i.
           self_lap_time tr = Some lap \<and> py_mod q lap = Inr phase \<and>
           closest_point_time tr q = Inr (d, i) \<and>
           k \<le> length (self_t tr) \<and> i = k mod length (self_t tr) \<and>
           (\<forall>j\<le>length (self_t tr).
              \<bar>the (self_t2 tr ! k) - phase\<bar> \<le> \<bar>the (self_t2 tr ! j) - phase\<bar>) \<and>
           (\<forall>j<k. \<bar>the (self_t2 tr ! k) - phase\<bar> < \<bar>the (self_t2 tr ! j) - phase\<bar>)"
proof -
  from assms obtain xs ys vs :: "real list" and ts lap where
    v: "self_x tr = Some xs" "self_lap_time tr = Some lap" "self_t tr = map Some ts"
       "self_t2 tr = map Some (ts @ [lap])" "ts \<noteq> []" "length xs = length ts"
    and lap: "0 < lap"
    by (rule valid_trajectoryD)
  from lap have lap0: "lap \<noteq> 0" by simp
  define phase where "phase = floor_mod q lap"
  define ds where "ds = map (\<lambda>w. \<bar>w - phase\<bar>) (ts @ [lap])"
  from closest_point_time_valid [OF v lap0, of q] obtain k where
    k: "first_min ds k"
    and c: "closest_point_time tr q = Inr (ds ! (k mod length ts), k mod length ts)"
    unfolding ds_def phase_def by blast
  have len: "length ds = Suc (length ts)" by (simp add: ds_def)
  have dj: "ds ! j = \<bar>the (self_t2 tr ! j) - phase\<bar>" if "j \<le> length ts" for j
  proof -
    from that have "j < length (ts @ [lap])" by simp
    then show ?thesis unfolding ds_def v(4) by (simp only: nth_map option.sel)
  qed
  from k len have kl: "k \<le> length ts" by (simp add: first_min_def)
  have ph: "py_mod q lap = Inr phase" using lap0 by (simp add: py_mod_def phase_def)
  have all: "\<forall>j\<le>length (self_t tr).
               \<bar>the (self_t2 tr ! k) - phase\<bar> \<le> \<bar>the (self_t2 tr ! j) - phase\<bar>"
  proof (intro allI impI)
    fix j assume "j \<le> length (self_t tr)"
    then have j: "j \<le> length ts" by (simp add: v(3))
    then have "j < length ds" using len by simp
    with k have "ds ! k \<le> ds ! j" by (simp add: first_min_def)
    then show "\<bar>the (self_t2 tr ! k) - phase\<bar> \<le> \<bar>the (self_t2 tr ! j) - phase\<bar>"
      by (simp only: dj [OF kl] dj [OF j])
  qed
  have before: "\<forall>j<k. \<bar>the (self_t2 tr ! k) - phase\<bar> < \<bar>the (self_t2 tr ! j) - phase\<bar>"
  proof (intro allI impI)
    fix j assume jk: "j < k"
    with kl have j: "j \<le> length ts" by simp
    from k jk have "ds ! k < ds ! j" by (simp add: first_min_def)
    then show "\<bar>the (self_t2 tr ! k) - phase\<bar> < \<bar>the (self_t2 tr ! j) - phase\<bar>"
      by (simp only: dj [OF kl] dj [OF j])
  qed
  from kl have kl': "k \<le> length (self_t tr)" by (simp add: v(3))
  have c': "closest_point_time tr q = Inr (ds ! (k mod length ts), k mod length (self_t tr))"
    using c by (simp add: v(3))
  from v(2) ph c' kl' all before show ?thesis by blast
qed

text \<open>At the scenario, queried at 0.5: the entries 0 and 1 tie at 0.5, and index 0 wins.\<close>

theorem closest_point_time_first_minimum_witness:
  "valid_trajectory lap3 \<and>
   closest_point_time lap3 (1 / 2) = Inr (1 / 2, 0) \<and>
   (\<exists>lap phase k d i.
      self_lap_time lap3 = Some lap \<and> py_mod (1 / 2) lap = Inr phase \<and>
      closest_point_time lap3 (1 / 2) = Inr (d, i) \<and>
      k \<le> length (self_t lap3) \<and> i = k mod length (self_t lap3) \<and>
      \<bar>the (self_t2 lap3 ! k) - phase\<bar> \<le> \<bar>the (self_t2 lap3 ! 1) - phase\<bar> \<and>
      \<bar>the (self_t2 lap3 ! 0) - phase\<bar> = \<bar>the (self_t2 lap3 ! 1) - phase\<bar>)"
proof -
  from closest_point_time_first_minimum [OF valid_lap3, of "1 / 2"] obtain lap phase k d i
    where w: "self_lap_time lap3 = Some lap" "py_mod (1 / 2) lap = Inr phase"
      "closest_point_time lap3 (1 / 2) = Inr (d, i)"
      "k \<le> length (self_t lap3)" "i = k mod length (self_t lap3)"
      "\<forall>j\<le>length (self_t lap3).
          \<bar>the (self_t2 lap3 ! k) - phase\<bar> \<le> \<bar>the (self_t2 lap3 ! j) - phase\<bar>"
    by blast
  have "(1::nat) \<le> length (self_t lap3)" by (simp add: lap3_fields)
  with w(6) have le: "\<bar>the (self_t2 lap3 ! k) - phase\<bar> \<le> \<bar>the (self_t2 lap3 ! 1) - phase\<bar>"
    by blast
  from w(1,2) have "phase = 1 / 2"
    by (simp add: lap3_fields py_mod_def floor_mod_def)
  then have tie: "\<bar>the (self_t2 lap3 ! 0) - phase\<bar> = \<bar>the (self_t2 lap3 ! 1) - phase\<bar>"
    by (simp add: lap3_fields)
  from valid_lap3 closest_lap3_half w(1-5) le tie show ?thesis by blast
qed

text \<open>
  C9. The velocities are not consumed by the lookup: two constructed trajectories with the
  same times, the same lap time and the same number of samples return the same result at
  every query time, whatever their velocities (and positions) are.
\<close>

theorem closest_point_time_ignores_velocities:
  assumes "Trajectory_init x y t v lap = Inr a"
    and "Trajectory_init x' y' t v' lap = Inr b"
    and "size_of a = size_of b"
  shows "closest_point_time a q = closest_point_time b q"
proof -
  from assms(1,2) have "self_t a = self_t b" "self_t2 a = self_t2 b"
    "self_lap_time a = self_lap_time b"
    by (auto simp: Trajectory_init_def split: option.splits)
  moreover from this have "distances a q = distances b q"
    by (simp add: distances_def cong: option.case_cong sum.case_cong)
  ultimately show ?thesis using assms(3)
    by (simp add: closest_point_time_def cong: list.case_cong sum.case_cong if_cong)
qed

text \<open>At the scenario, with the velocities \<open>[1, 1, 1]\<close> and \<open>[9, 8, 7]\<close>.\<close>

theorem closest_point_time_ignores_velocities_witness:
  "Trajectory_init (Some [0, 1, 2]) (Some [0, 0, 0]) (Some [Some 0, Some 1, Some 2])
     (Some [1, 1, 1]) (Some 3) = Inr lap3 \<and>
   Trajectory_init (Some [0, 1, 2]) (Some [0, 0, 0]) (Some [Some 0, Some 1, Some 2])
     (Some [9, 8, 7]) (Some 3) = Inr (lap3\<lparr>self_v := Some [9, 8, 7]\<rparr>) \<and>
   valid_trajectory lap3 \<and> valid_trajectory (lap3\<lparr>self_v := Some [9, 8, 7]\<rparr>) \<and>
   size_of lap3 = size_of (lap3\<lparr>self_v := Some [9, 8, 7]\<rparr>) \<and>
   closest_point_time lap3 (1 / 2) =
     closest_point_time (lap3\<lparr>self_v := Some [9, 8, 7]\<rparr>) (1 / 2)"
proof -
  have b: "Trajectory_init (Some [0, 1, 2]) (Some [0, 0, 0]) (Some [Some 0, Some 1, Some 2])
     (Some [9, 8, 7]) (Some 3) = Inr (lap3\<lparr>self_v := Some [9, 8, 7]\<rparr>)"
    by (simp add: Trajectory_init_def lap3_def)
  have s: "size_of lap3 = size_of (lap3\<lparr>self_v := Some [9, 8, 7]\<rparr>)"
    by (simp add: size_of_def)
  have v: "valid_trajectory (lap3\<lparr>self_v := Some [9, 8, 7]\<rparr>)"
    by (simp add: valid_trajectory_def lap3_def)
  from closest_point_time_ignores_velocities [OF init_lap3 b s, of "1 / 2"]
    init_lap3 b s v valid_lap3
  show ?thesis by simp
qed

text \<open>
  C10. The lookup raises the missing-timestamps error if and only if the first entry of the
  stored time column is \<^verbatim>\<open>None\<close>: no entry after the first is inspected by that check, so
  a column with a number first and \<^verbatim>\<open>None\<close> later does not raise it (the subtraction then
  raises a TypeError of its own, see \<open>closest_gap3\<close>). The constructor accepts every list of
  time entries, missing ones included.
\<close>

theorem lacks_timestamps_iff_first_None:
  "(closest_point_time tr q = Inl lacks_timestamps) = (\<exists>rest. self_t tr = None # rest) \<and>
   (\<exists>tr'. Trajectory_init x y (Some ts) v lap = Inr tr' \<and> self_t tr' = ts)"
proof (intro conjI iffI)
  assume "closest_point_time tr q = Inl lacks_timestamps"
  from closest_point_time_error [OF this]
  show "\<exists>rest. self_t tr = None # rest" by (auto simp: lacks_timestamps_def)
next
  assume "\<exists>rest. self_t tr = None # rest"
  then show "closest_point_time tr q = Inl lacks_timestamps"
    by (auto simp: closest_point_time_def)
next
  show "\<exists>tr'. Trajectory_init x y (Some ts) v lap = Inr tr' \<and> self_t tr' = ts"
    by (simp add: Trajectory_init_def)
qed

text \<open>With the entries \<open>[0, None, 2]\<close>, and with \<open>[None, 1, 2]\<close>.\<close>

theorem lacks_timestamps_iff_first_None_witness:
  "Trajectory_init (Some [0, 1, 2]) (Some [0, 0, 0]) (Some [Some 0, None, Some 2])
     (Some [1, 1, 1]) (Some 3) = Inr gap3 \<and>
   closest_point_time gap3 1 \<noteq> Inl lacks_timestamps \<and>
   closest_point_time (gap3\<lparr>self_t := [None, Some 1, Some 2]\<rparr>) 1 = Inl lacks_timestamps"
proof -
  have i: "Trajectory_init (Some [0, 1, 2]) (Some [0, 0, 0]) (Some [Some 0, None, Some 2])
     (Some [1, 1, 1]) (Some 3) = Inr gap3"
    by (simp add: Trajectory_init_def gap3_def)
  have "closest_point_time gap3 1 \<noteq> Inl lacks_timestamps"
    using lacks_timestamps_iff_first_None [of gap3 1 None None "[]" None None]
    by (simp add: gap3_def)
  moreover have
    "closest_point_time (gap3\<lparr>self_t := [None, Some 1, Some 2]\<rparr>) 1 = Inl lacks_timestamps"
    using lacks_timestamps_iff_first_None
      [of "gap3\<lparr>self_t := [None, Some 1, Some 2]\<rparr>" 1 None None "[]" None None]
    by simp
  ultimately show ?thesis using i by simp
qed

text \<open>
  C2, as the specification states it, fails: the specification says that construction fails
  when there is no sample, when the columns differ in length, when the lap time is not
  positive, when the times decrease or do not start at 0. The constructor stores such
  columns without complaint.
\<close>

theorem Trajectory_init_accepts_invalid:
  "Trajectory_init (Some [1]) (Some []) (Some [Some 5, Some 2]) (Some []) (Some (- 1))
     = Inr disordered \<and>
   Trajectory_init (Some []) (Some []) (Some []) (Some []) (Some 0) = Inr no_samples \<and>
   \<not> valid_trajectory disordered \<and> \<not> valid_trajectory no_samples"
  by (simp add: Trajectory_init_def disordered_def no_samples_def valid_trajectory_def)

text \<open>
  C2, amended. The constructor validates nothing: it succeeds exactly when the time argument
  is a list, its only exception is the TypeError of \<^verbatim>\<open>None + [lap_time]\<close>, and on success
  it has stored the arguments as they are, with \<^verbatim>\<open>_t2\<close> the times followed by the lap time.
\<close>

theorem Trajectory_init_no_validation:
  "((\<exists>tr. Trajectory_init x y t v lap = Inr tr) = (t \<noteq> None)) \<and>
   (Trajectory_init x y t v lap = Inl e \<longrightarrow> e = TypeError \<and> t = None) \<and>
   (Trajectory_init x y t v lap = Inr tr \<longrightarrow>
      self_x tr = x \<and> self_y tr = y \<and> t = Some (self_t tr) \<and> self_v tr = v \<and>
      self_lap_time tr = lap \<and> self_t2 tr = self_t tr @ [lap])"
  by (cases t) (auto simp: Trajectory_init_def)

text \<open>At the disordered columns, and without a time column.\<close>

theorem Trajectory_init_no_validation_witness:
  "Trajectory_init (Some [1]) (Some []) (Some [Some 5, Some 2]) (Some []) (Some (- 1))
     = Inr disordered \<and>
   self_t2 disordered = self_t disordered @ [Some (- 1)] \<and>
   Trajectory_init (Some [1]) (Some []) None (Some []) (Some (- 1)) = Inl TypeError"
proof -
  have a: "Trajectory_init (Some [1]) (Some []) (Some [Some 5, Some 2]) (Some []) (Some (- 1))
     = Inr disordered"
    by (simp add: Trajectory_init_def disordered_def)
  have b: "Trajectory_init (Some [1]) (Some []) None (Some []) (Some (- 1)) = Inl TypeError"
    by (simp add: Trajectory_init_def)
  from Trajectory_init_no_validation
    [of "Some [1]" "Some []" "Some [Some 5, Some 2]" "Some []" "Some (- 1)" TypeError disordered]
    a
  have "self_t2 disordered = self_t disordered @ [Some (- 1)]" by simp
  with a b show ?thesis by simp
qed

text \<open>
  C3, as the specification states it, fails: the specification says that a rate \<open>\<le> 0\<close> is
  refused before any tick. The node checks no sign: with the rate \<open>-1\<close> it hands the period
  \<open>-1\<close> to \<^verbatim>\<open>create_timer\<close>, and is built when that accepts it.
\<close>

theorem ReplayNode_init_negative_rate:
  "ReplayNode_init accepting_timer lap3 (- 1) ''map'' =
     Inr \<lparr>self_trajectory = lap3, self_frame_id = ''map'', self_pub = [], self_loop = - 1\<rparr>"
  by (simp add: ReplayNode_init_def int_to_float_def accepting_timer_def)

text \<open>
  C3, amended. A zero rate raises ZeroDivisionError, and a rate too large for a float
  (\<open>2 ^ 1024 - 2 ^ 970\<close> or more in magnitude) raises OverflowError, both before the timer
  is created, whatever \<^verbatim>\<open>create_timer\<close> would do. For every other rate, negative ones
  included, the period \<open>1 / rate\<close> goes to \<^verbatim>\<open>create_timer\<close>: its failure is the node's, and
  otherwise the node is built with nothing published yet.
\<close>

theorem ReplayNode_init_rate:
  "ReplayNode_init create_timer tr 0 frame_id = Inl ZeroDivisionError \<and>
   (2 ^ 1024 - 2 ^ 970 \<le> \<bar>rate\<bar> \<longrightarrow>
      ReplayNode_init create_timer tr rate frame_id = Inl OverflowError) \<and>
   (rate \<noteq> 0 \<longrightarrow> \<bar>rate\<bar> < 2 ^ 1024 - 2 ^ 970 \<longrightarrow>
    create_timer (1 / real_of_int rate) = Inl e \<longrightarrow>
      ReplayNode_init create_timer tr rate frame_id = Inl e) \<and>
   (rate \<noteq> 0 \<longrightarrow> \<bar>rate\<bar> < 2 ^ 1024 - 2 ^ 970 \<longrightarrow>
    create_timer (1 / real_of_int rate) = Inr tm \<longrightarrow>
      ReplayNode_init create_timer tr rate frame_id =
        Inr \<lparr>self_trajectory = tr, self_frame_id = frame_id, self_pub = [], self_loop = tm\<rparr>)"
proof (intro conjI impI)
  show "ReplayNode_init create_timer tr 0 frame_id = Inl ZeroDivisionError"
    by (simp add: ReplayNode_init_def int_to_float_def)
next
  assume "2 ^ 1024 - 2 ^ 970 \<le> \<bar>rate\<bar>"
  then have "int_to_float rate = Inl OverflowError" by (simp only: int_to_float_def if_True)
  then show "ReplayNode_init create_timer tr rate frame_id = Inl OverflowError"
    by (simp add: ReplayNode_init_def)
next
  assume "rate \<noteq> 0" and "\<bar>rate\<bar> < 2 ^ 1024 - 2 ^ 970"
    and ct: "create_timer (1 / real_of_int rate) = Inl e"
  then have "int_to_float rate = Inr (real_of_int rate)" "real_of_int rate \<noteq> 0"
    by (simp_all only: int_to_float_def not_le [symmetric] if_False of_int_eq_0_iff not_False_eq_True)
  with ct show "ReplayNode_init create_timer tr rate frame_id = Inl e"
    by (simp add: ReplayNode_init_def)
next
  assume "rate \<noteq> 0" and "\<bar>rate\<bar> < 2 ^ 1024 - 2 ^ 970"
    and ct: "create_timer (1 / real_of_int rate) = Inr tm"
  then have "int_to_float rate = Inr (real_of_int rate)" "real_of_int rate \<noteq> 0"
    by (simp_all only: int_to_float_def not_le [symmetric] if_False of_int_eq_0_iff not_False_eq_True)
  with ct show "ReplayNode_init create_timer tr rate frame_id =
      Inr \<lparr>self_trajectory = tr, self_frame_id = frame_id, self_pub = [], self_loop = tm\<rparr>"
    by (simp add: ReplayNode_init_def)
qed

text \<open>At the rates 10, 0 and \<open>10 ^ 309\<close>.\<close>

theorem ReplayNode_init_rate_witness:
  "(10::int) \<noteq> 0 \<and> \<bar>10::int\<bar> < 2 ^ 1024 - 2 ^ 970 \<and>
   (2::int) ^ 1024 - 2 ^ 970 \<le> \<bar>10 ^ 309\<bar> \<and>
   accepting_timer (1 / real_of_int 10) = Inr (1 / 10) \<and>
   ReplayNode_init accepting_timer lap3 10 ''map'' =
     Inr \<lparr>self_trajectory = lap3, self_frame_id = ''map'', self_pub = [], self_loop = 1 / 10\<rparr> \<and>
   ReplayNode_init accepting_timer lap3 0 ''map'' = Inl ZeroDivisionError \<and>
   ReplayNode_init accepting_timer lap3 (10 ^ 309) ''map'' = Inl OverflowError"
proof -
  have small: "\<bar>10::int\<bar> < 2 ^ 1024 - 2 ^ 970" by simp
  have large: "(2::int) ^ 1024 - 2 ^ 970 \<le> \<bar>10 ^ 309\<bar>" by simp
  have at: "accepting_timer (1 / real_of_int 10) = Inr (1 / 10)"
    by (simp add: accepting_timer_def)
  from ReplayNode_init_rate [of accepting_timer lap3 "''map''" 10 TypeError "1 / 10"] small at
  have ten: "ReplayNode_init accepting_timer lap3 10 ''map'' =
     Inr \<lparr>self_trajectory = lap3, self_frame_id = ''map'', self_pub = [], self_loop = 1 / 10\<rparr>"
    and zero: "ReplayNode_init accepting_timer lap3 0 ''map'' = Inl ZeroDivisionError"
    by simp_all
  from ReplayNode_init_rate [of accepting_timer lap3 "''map''" "10 ^ 309" TypeError 0] large
  have big: "ReplayNode_init accepting_timer lap3 (10 ^ 309) ''map'' = Inl OverflowError"
    by blast
  from small large at ten zero big show ?thesis by (intro conjI) simp_all
qed

text \<open>
  C7, as the specification states it, fails: the specification says that the lookup
  receives the time elapsed since the loop started. The callback keeps no start time and
  passes the clock reading itself. With a loop started at clock time 1 s and a tick at 2 s,
  the elapsed time 1 s selects sample 1 at \<open>x = 1\<close>, while the callback publishes sample 2 at
  \<open>x = 2\<close>.
\<close>

theorem loop_queries_clock_time:
  "loop lap3_node 2000000000 =
     Inr (lap3_node\<lparr>self_pub :=
       [\<lparr>header_frame_id = ''map'', header_stamp = 2000000000,
         position_x = 2, position_y = 0\<rparr>]\<rparr>) \<and>
   closest_point_time lap3 (real_of_int (2000000000 - 1000000000) / 1000000000) = Inr (0, 1) \<and>
   column_getitem (self_x lap3) 1 = Inr 1 \<and>
   loop lap3_node 2000000000 \<noteq>
     Inr (lap3_node\<lparr>self_pub :=
       [\<lparr>header_frame_id = ''map'', header_stamp = 2000000000,
         position_x = 1, position_y = 0\<rparr>]\<rparr>)"
proof -
  have l: "loop lap3_node 2000000000 =
     Inr (lap3_node\<lparr>self_pub :=
       [\<lparr>header_frame_id = ''map'', header_stamp = 2000000000,
         position_x = 2, position_y = 0\<rparr>]\<rparr>)"
    by (simp add: loop_def lap3_node_def closest_lap3_2 column_getitem_def np_getitem_def
        lap3_fields)
  have c: "closest_point_time lap3 (real_of_int (2000000000 - 1000000000) / 1000000000)
             = Inr (0, 1)"
    by (simp add: closest_lap3_1)
  have g: "column_getitem (self_x lap3) 1 = Inr 1"
    by (simp add: column_getitem_def np_getitem_def lap3_fields)
  from l c g show ?thesis by (simp add: lap3_node_def)
qed

text \<open>
  C7, amended. On a valid trajectory one firing of the timer, with the clock read once as
  \<open>now\<close>, looks up the clock reading in seconds, and publishes exactly one message: the
  frame id, the stamp \<open>now\<close> and the position of the sample at the index returned. Nothing
  else of the node changes.
\<close>

theorem loop_emits_once:
  assumes "valid_trajectory (self_trajectory node)"
  shows "\<exists>d i px py.
           closest_point_time (self_trajectory node) (real_of_int now / 1000000000)
             = Inr (d, i) \<and>
           column_getitem (self_x (self_trajectory node)) i = Inr px \<and>
           column_getitem (self_y (self_trajectory node)) i = Inr py \<and>
           loop node now =
             Inr (node\<lparr>self_pub := self_pub node @
               [\<lparr>header_frame_id = self_frame_id node, header_stamp = now,
                 position_x = px, position_y = py\<rparr>]\<rparr>)"
proof -
  let ?tr = "self_trajectory node"
  from assms obtain xs ys vs :: "real list" and ts and lap :: real where
    v: "self_x ?tr = Some xs" "self_y ?tr = Some ys" "self_t ?tr = map Some ts"
       "length xs = length ts" "length ys = length ts"
    by (rule valid_trajectoryD)
  from closest_point_time_index [OF assms, of "real_of_int now / 1000000000"]
  obtain d i where
    c: "closest_point_time ?tr (real_of_int now / 1000000000) = Inr (d, i)"
    and i: "i < length (self_t ?tr)"
    by auto
  from i v have gx: "column_getitem (self_x ?tr) i = Inr (xs ! i)"
    and gy: "column_getitem (self_y ?tr) i = Inr (ys ! i)"
    by (simp_all add: column_getitem_def np_getitem_def)
  have "loop node now =
          Inr (node\<lparr>self_pub := self_pub node @
            [\<lparr>header_frame_id = self_frame_id node, header_stamp = now,
              position_x = xs ! i, position_y = ys ! i\<rparr>]\<rparr>)"
    by (simp add: loop_def c gx gy)
  with c gx gy show ?thesis by blast
qed

text \<open>At the scenario's node, at the clock reading 2 s.\<close>

theorem loop_emits_once_witness:
  "valid_trajectory (self_trajectory lap3_node) \<and>
   (\<exists>d i px py.
      closest_point_time (self_trajectory lap3_node) (real_of_int 2000000000 / 1000000000)
        = Inr (d, i) \<and>
      column_getitem (self_x (self_trajectory lap3_node)) i = Inr px \<and>
      column_getitem (self_y (self_trajectory lap3_node)) i = Inr py \<and>
      loop lap3_node 2000000000 =
        Inr (lap3_node\<lparr>self_pub := self_pub lap3_node @
          [\<lparr>header_frame_id = self_frame_id lap3_node, header_stamp = 2000000000,
            position_x = px, position_y = py\<rparr>]\<rparr>))"
proof -
  have v: "valid_trajectory (self_trajectory lap3_node)"
    by (simp add: lap3_node_def valid_lap3)
  from loop_emits_once [OF v, of 2000000000] v show ?thesis by simp
qed

end
